theory Spec2Isabelle
  imports Complex_Main "HOL-Library.Word"
begin

section \<open>EveryDreamBatch (data/every\_dream.py)\<close>

text \<open>
  A shallow embedding of the class \<open>EveryDreamBatch\<close>. Python \<open>int\<close> is \<open>int\<close>,
  \<open>len\<close> and \<open>range\<close> indices are \<open>nat\<close>, and Python \<open>float\<close> is idealised as
  \<open>real\<close>: rounding, infinities, NaN and the sign of zero are not represented. Every
  \<open>raise\<close> is a value \<open>Inl e\<close>; a method returns its result together with the object
  and the outside world as they are when it returns or raises, because an exception does
  not undo the assignments made before it.
\<close>

subsection \<open>Errors, the outside world, the collaborators\<close>

datatype error =
  ZeroDivisionError
  | IndexError
  | AttributeError
  | OSError
  | HydrateError string

datatype log_level = INFO | ERROR

text \<open>
  The world outside the object: the \<open>DataLoaderMultiAspect\<close> object that
  \<open>self.data_loader\<close> refers to, the global generator behind \<open>random.random()\<close> (the
  values it is going to return, and how many were taken), the file system as far as
  \<open>open(path, "w")\<close> and \<open>f.write\<close> see it (which paths can be opened, which of the
  successive \<open>write\<close> calls succeed, the lines each file holds), and the records handed
  to \<open>logging\<close>.
\<close>

record 'dl world =
  loader :: 'dl
  draws :: "nat \<Rightarrow> real"
  draws_used :: nat
  open_ok :: "string \<Rightarrow> bool"
  write_ok :: "nat \<Rightarrow> bool"
  writes_tried :: nat
  files :: "string \<Rightarrow> string list option"
  log :: "(log_level \<times> string) list"

text \<open>The object \<open>image_train_item.hydrate(...)\<close> returns: its three attributes read here.\<close>

record 'cap hydrated =
  h_image :: "8 word list"
  h_caption :: 'cap
  h_runt_size :: int

text \<open>
  The collaborators are not part of this file of the repository; they are parameters.
  \<open>dl_batch_size\<close> is the attribute \<open>data_loader.batch_size\<close>;
  \<open>get_shuffled_image_buckets\<close> returns the ordering and the loader's next state;
  \<open>item_target_wh\<close> is the text \<open>str\<close> gives for \<open>item.target_wh\<close>;
  \<open>hydrate item crop save crop_jitter\<close> may raise;
  \<open>tokenizer_call tok text truncation padding max_length\<close> is
  \<open>tok(text, truncation=..., padding=..., max_length=...).input_ids\<close>.
  The loader, the caption object and the tokenizer are taken to return.
\<close>

record ('dl, 'item, 'tok, 'cap) collaborators =
  dl_batch_size :: "'dl \<Rightarrow> int"
  get_shuffled_image_buckets :: "'dl \<Rightarrow> real \<Rightarrow> 'item list \<times> 'dl"
  item_target_wh :: "'item \<Rightarrow> string"
  item_runt_size :: "'item \<Rightarrow> int"
  item_pathname :: "'item \<Rightarrow> string"
  hydrate :: "'item \<Rightarrow> bool \<Rightarrow> bool \<Rightarrow> int \<Rightarrow> error + 'cap hydrated"
  get_caption :: "'cap \<Rightarrow> string"
  get_shuffled_caption :: "'cap \<Rightarrow> int \<Rightarrow> string"
  model_max_length :: "'tok \<Rightarrow> int"
  tokenizer_call :: "'tok \<Rightarrow> string \<Rightarrow> bool \<Rightarrow> string \<Rightarrow> int \<Rightarrow> int list"

subsection \<open>The object\<close>

text \<open>
  The attributes \<open>__init__\<close> assigns, in its order. \<open>self.data_loader\<close> is a reference to
  the loader object, whose state is \<open>loader\<close> of the world.
\<close>

record ('item, 'tok) EveryDreamBatch =
  batch_size :: int
  debug_level :: int
  conditional_dropout :: real
  crop_jitter :: int
  unloaded_to_idx :: int
  tokenizer :: 'tok
  log_folder :: "string option"
  max_token_length :: int
  retain_contrast :: bool
  write_schedule :: bool
  shuffle_tags :: bool
  seed :: int
  rated_dataset :: bool
  rated_dataset_dropout_target :: real
  image_train_items :: "'item list"

text \<open>The keyword arguments of \<open>__init__\<close> and their defaults.\<close>

record 'tok init_args =
  a_debug_level :: int
  a_conditional_dropout :: real
  a_crop_jitter :: int
  a_seed :: int
  a_tokenizer :: "'tok option"
  a_log_folder :: "string option"
  a_retain_contrast :: bool
  a_write_schedule :: bool
  a_shuffle_tags :: bool
  a_rated_dataset :: bool
  a_rated_dataset_dropout_target :: real

definition default_args :: "'tok init_args" where
  "default_args =
     \<lparr>a_debug_level = 0, a_conditional_dropout = 2 / 100, a_crop_jitter = 20,
      a_seed = 555, a_tokenizer = None, a_log_folder = None,
      a_retain_contrast = False, a_write_schedule = False, a_shuffle_tags = False,
      a_rated_dataset = False, a_rated_dataset_dropout_target = 1 / 2\<rparr>"

subsection \<open>Python's arithmetic and formatting\<close>

text \<open>\<open>a / b\<close> on two \<open>int\<close>s: true division, \<open>ZeroDivisionError\<close> when \<open>b\<close> is 0.\<close>

definition py_truediv :: "int \<Rightarrow> int \<Rightarrow> error + real" where
  "py_truediv a b =
     (if b = 0 then Inl ZeroDivisionError else Inr (real_of_int a / real_of_int b))"

text \<open>\<open>int(x)\<close> on a float truncates towards zero.\<close>

definition py_int :: "real \<Rightarrow> int" where
  "py_int x = (if 0 \<le> x then \<lfloor>x\<rfloor> else \<lceil>x\<rceil>)"

fun dec :: "nat \<Rightarrow> string" where
  "dec n = (if n < 10 then [''0123456789'' ! n]
            else dec (n div 10) @ [''0123456789'' ! (n mod 10)])"

declare dec.simps [simp del]

text \<open>\<open>str(i)\<close>, which is also \<open>f"{i}"\<close>.\<close>

definition py_str_int :: "int \<Rightarrow> string" where
  "py_str_int i = (if i < 0 then ''-'' @ dec (nat (- i)) else dec (nat i))"

definition zfill :: "nat \<Rightarrow> string \<Rightarrow> string" where
  "zfill w ds = replicate (w - length ds) (CHR ''0'') @ ds"

text \<open>
  \<open>f"{i:05}"\<close>: the sign first, then zeros up to a width of 5 characters in all, then
  the digits; a longer number is not cut.
\<close>

definition py_format_05 :: "int \<Rightarrow> string" where
  "py_format_05 i =
     (if i < 0 then ''-'' @ zfill 4 (dec (nat (- i))) else zfill 5 (dec (nat i)))"

text \<open>Rounding to an integer with ties to the even one, as \<open>:.0f\<close> rounds.\<close>

definition round_half_even :: "real \<Rightarrow> int" where
  "round_half_even x =
     (let f = \<lfloor>x\<rfloor>; d = x - of_int f
      in if d < 1 / 2 then f
         else if 1 / 2 < d then f + 1
         else if even f then f else f + 1)"

text \<open>\<open>f"{x:.0f}"\<close>.\<close>

definition py_format_0f :: "real \<Rightarrow> string" where
  "py_format_0f x =
     (if x < 0 then ''-'' @ dec (nat (round_half_even (- x)))
      else dec (nat (round_half_even x)))"

text \<open>\<open>f"{v}"\<close> for a value that is a string or \<open>None\<close>.\<close>

definition py_str_opt :: "string option \<Rightarrow> string" where
  "py_str_opt v = (case v of None \<Rightarrow> ''None'' | Some t \<Rightarrow> t)"

text \<open>\<open>xs[i]\<close>: a negative index counts from the end.\<close>

definition py_index :: "'a list \<Rightarrow> int \<Rightarrow> error + 'a" where
  "py_index xs i =
     (if 0 \<le> i
      then (if i < int (length xs) then Inr (xs ! nat i) else Inl IndexError)
      else (if - int (length xs) \<le> i then Inr (xs ! nat (int (length xs) + i))
            else Inl IndexError))"

subsection \<open>Logging, files, randomness\<close>

definition logging_info :: "string \<Rightarrow> 'dl world \<Rightarrow> 'dl world" where
  "logging_info msg w = w\<lparr>log := log w @ [(INFO, msg)]\<rparr>"

definition logging_error :: "string \<Rightarrow> 'dl world \<Rightarrow> 'dl world" where
  "logging_error msg w = w\<lparr>log := log w @ [(ERROR, msg)]\<rparr>"

text \<open>\<open>open(path, "w")\<close>: raises, or leaves an empty file.\<close>

definition file_open_w :: "string \<Rightarrow> 'dl world \<Rightarrow> (error + unit) \<times> 'dl world" where
  "file_open_w path w =
     (if open_ok w path then (Inr (), w\<lparr>files := (files w)(path \<mapsto> [])\<rparr>)
      else (Inl OSError, w))"

text \<open>\<open>f.write(line)\<close>: the next outcome of the world decides whether it raises.\<close>

definition file_write :: "string \<Rightarrow> string \<Rightarrow> 'dl world \<Rightarrow> (error + unit) \<times> 'dl world" where
  "file_write path line w =
     (let k = writes_tried w; w' = w\<lparr>writes_tried := Suc k\<rparr>
      in if write_ok w k
         then (Inr (),
               w'\<lparr>files := (files w')(path \<mapsto>
                     (case files w' path of None \<Rightarrow> [line] | Some ls \<Rightarrow> ls @ [line]))\<rparr>)
         else (Inl OSError, w'))"

text \<open>\<open>random.random()\<close>.\<close>

definition random_random :: "'dl world \<Rightarrow> real \<times> 'dl world" where
  "random_random w = (draws w (draws_used w), w\<lparr>draws_used := Suc (draws_used w)\<rparr>)"

subsection \<open>\<open>__write_batch_schedule\<close>\<close>

text \<open>
  The line one iteration formats,
  \<open>f"step:{int(i / self.batch_size):05}, wh:{item.target_wh}, r:{item.runt_size}, path:{item.pathname}\n"\<close>:
  the division is evaluated first and may raise; \<open>schedule_text\<close> is the text once
  the step is known.
\<close>

definition schedule_text ::
  "('dl, 'item, 'tok, 'cap) collaborators \<Rightarrow> 'item \<Rightarrow> int \<Rightarrow> string" where
  "schedule_text C it step_n =
     ''step:'' @ py_format_05 step_n
       @ '', wh:'' @ item_target_wh C it
       @ '', r:'' @ py_str_int (item_runt_size C it)
       @ '', path:'' @ item_pathname C it
       @ [CHR 0x0A]"

definition schedule_line ::
  "('dl, 'item, 'tok, 'cap) collaborators \<Rightarrow> ('item, 'tok) EveryDreamBatch \<Rightarrow> nat
     \<Rightarrow> error + string" where
  "schedule_line C self i =
     (case py_truediv (int i) (batch_size self) of
        Inl e \<Rightarrow> Inl e
      | Inr q \<Rightarrow> Inr (schedule_text C (image_train_items self ! i) (py_int q)))"

definition schedule_error_msg ::
  "('dl, 'item, 'tok, 'cap) collaborators \<Rightarrow> ('item, 'tok) EveryDreamBatch \<Rightarrow> nat \<Rightarrow> string" where
  "schedule_error_msg C self i =
     '' * Error writing to batch schedule for file path: ''
       @ item_pathname C (image_train_items self ! i)"

text \<open>The body of the loop: \<open>try: f.write(...)\<close>, \<open>except Exception: logging.error(...)\<close>.\<close>

definition write_entry ::
  "('dl, 'item, 'tok, 'cap) collaborators \<Rightarrow> ('item, 'tok) EveryDreamBatch \<Rightarrow> string \<Rightarrow> nat
     \<Rightarrow> 'dl world \<Rightarrow> 'dl world" where
  "write_entry C self path i w =
     (case schedule_line C self i of
        Inl e \<Rightarrow> logging_error (schedule_error_msg C self i) w
      | Inr line \<Rightarrow>
          (case file_write path line w of
             (Inl e, w') \<Rightarrow> logging_error (schedule_error_msg C self i) w'
           | (Inr u, w') \<Rightarrow> w'))"

text \<open>\<open>for i in range(len(self.image_train_items))\<close>, over the indices still to come.\<close>

primrec write_entries ::
  "('dl, 'item, 'tok, 'cap) collaborators \<Rightarrow> ('item, 'tok) EveryDreamBatch \<Rightarrow> string \<Rightarrow> nat list
     \<Rightarrow> 'dl world \<Rightarrow> 'dl world" where
  "write_entries C self path [] w = w"
| "write_entries C self path (i # is) w =
     write_entries C self path is (write_entry C self path i w)"

text \<open>\<open>f"{self.log_folder}/ep{epoch_n}_batch_schedule.txt"\<close>.\<close>

definition schedule_path :: "string option \<Rightarrow> int \<Rightarrow> string" where
  "schedule_path folder epoch_n =
     py_str_opt folder @ ''/ep'' @ py_str_int epoch_n @ ''_batch_schedule.txt''"

definition write_batch_schedule ::
  "('dl, 'item, 'tok, 'cap) collaborators \<Rightarrow> ('item, 'tok) EveryDreamBatch \<Rightarrow> int
     \<Rightarrow> 'dl world \<Rightarrow> (error + unit) \<times> 'dl world" where
  "write_batch_schedule C self epoch_n w =
     (case file_open_w (schedule_path (log_folder self) epoch_n) w of
        (Inl e, w') \<Rightarrow> (Inl e, w')
      | (Inr u, w') \<Rightarrow>
          (Inr (),
           write_entries C self (schedule_path (log_folder self) epoch_n)
             [0 ..< length (image_train_items self)] w'))"

subsection \<open>\<open>shuffle\<close>\<close>

text \<open>The local \<open>dropout_fraction\<close> of \<open>shuffle\<close>.\<close>

definition dropout_fraction ::
  "('item, 'tok) EveryDreamBatch \<Rightarrow> int \<Rightarrow> int \<Rightarrow> error + real" where
  "dropout_fraction self epoch_n max_epochs =
     (if rated_dataset self
      then (if max_epochs = 0 then Inl ZeroDivisionError
            else Inr ((real_of_int max_epochs
                         - real_of_int epoch_n * rated_dataset_dropout_target self)
                      / real_of_int max_epochs))
      else Inr 1)"

definition shuffle ::
  "('dl, 'item, 'tok, 'cap) collaborators \<Rightarrow> int \<Rightarrow> int
     \<Rightarrow> ('item, 'tok) EveryDreamBatch \<times> 'dl world
     \<Rightarrow> (error + unit) \<times> ('item, 'tok) EveryDreamBatch \<times> 'dl world" where
  "shuffle C epoch_n max_epochs sw =
     (let self = fst sw; w = snd sw;
          self1 = self\<lparr>seed := seed self + 1\<rparr>
      in case dropout_fraction self1 epoch_n max_epochs of
           Inl e \<Rightarrow> (Inl e, self1, w)
         | Inr fraction \<Rightarrow>
             (let got = get_shuffled_image_buckets C (loader w) fraction;
                  self2 = self1\<lparr>image_train_items := fst got\<rparr>;
                  w2 = w\<lparr>loader := snd got\<rparr>
              in if write_schedule self2
                 then (case write_batch_schedule C self2 (epoch_n + 1) w2 of
                         (r, w3) \<Rightarrow> (r, self2, w3))
                 else (Inr (), self2, w2)))"

subsection \<open>\<open>__len__\<close>\<close>

definition len :: "('item, 'tok) EveryDreamBatch \<Rightarrow> nat" where
  "len self = length (image_train_items self)"

subsection \<open>\<open>__get_image_for_trainer\<close> and \<open>__getitem__\<close>\<close>

text \<open>The dictionary \<open>__get_image_for_trainer\<close> returns.\<close>

record 'cap train_item =
  ti_image :: "8 word list"
  ti_caption :: 'cap
  ti_runt_size :: int

text \<open>The dictionary \<open>__getitem__\<close> returns.\<close>

record example =
  image :: "real list"
  caption :: string
  tokens :: "int list"
  runt_size :: int

definition get_image_for_trainer ::
  "('dl, 'item, 'tok, 'cap) collaborators \<Rightarrow> ('item, 'tok) EveryDreamBatch \<Rightarrow> 'item \<Rightarrow> int
     \<Rightarrow> error + 'cap train_item" where
  "get_image_for_trainer C self image_train_item dbg =
     (let save = (2 < dbg)
      in case hydrate C image_train_item False save (crop_jitter self) of
           Inl e \<Rightarrow> Inl e
         | Inr image_train_tmp \<Rightarrow>
             Inr \<lparr>ti_image = h_image image_train_tmp,
                  ti_caption = h_caption image_train_tmp,
                  ti_runt_size = h_runt_size image_train_tmp\<rparr>)"

text \<open>
  torchvision's two transforms, as its documentation gives them, on the samples of an
  8-bit image taken in the order they are stored: \<open>ToTensor\<close> scales a sample \<open>p\<close> to
  \<open>p / 255\<close> (its reordering of the axes moves samples and changes none), and
  \<open>Normalize([mean], [std])\<close> maps every sample \<open>x\<close> to \<open>(x - mean) / std\<close>.
\<close>

definition ToTensor :: "8 word list \<Rightarrow> real list" where
  "ToTensor img = map (\<lambda>p. real (unat p) / 255) img"

definition Normalize :: "real \<Rightarrow> real \<Rightarrow> real list \<Rightarrow> real list" where
  "Normalize mean std_dev t = map (\<lambda>x. (x - mean) / std_dev) t"

text \<open>The \<open>(mean, std_dev)\<close> the \<open>if self.retain_contrast\<close> statement assigns.\<close>

definition normalize_params :: "('item, 'tok) EveryDreamBatch \<Rightarrow> real \<times> real" where
  "normalize_params self = (if retain_contrast self then (0, 1) else (1 / 2, 1 / 2))"

text \<open>\<open>torch.tensor\<close> of the token ids keeps the ids; it is not modelled.\<close>

definition getitem ::
  "('dl, 'item, 'tok, 'cap) collaborators \<Rightarrow> int
     \<Rightarrow> ('item, 'tok) EveryDreamBatch \<times> 'dl world
     \<Rightarrow> (error + example) \<times> ('item, 'tok) EveryDreamBatch \<times> 'dl world" where
  "getitem C i sw =
     (let self = fst sw; w = snd sw
      in case py_index (image_train_items self) i of
           Inl e \<Rightarrow> (Inl e, self, w)
         | Inr it \<Rightarrow>
             (case get_image_for_trainer C self it (debug_level self) of
                Inl e \<Rightarrow> (Inl e, self, w)
              | Inr ti \<Rightarrow>
                  (let mean = fst (normalize_params self);
                       std_dev = snd (normalize_params self);
                       cap = (if shuffle_tags self
                              then get_shuffled_caption C (ti_caption ti) (seed self)
                              else get_caption C (ti_caption ti));
                       img = Normalize mean std_dev (ToTensor (ti_image ti));
                       rw = random_random w;
                       toks = (if conditional_dropout self < fst rw
                               then tokenizer_call C (tokenizer self) cap True ''max_length''
                                      (model_max_length C (tokenizer self))
                               else tokenizer_call C (tokenizer self) '' '' True ''max_length''
                                      (model_max_length C (tokenizer self)))
                   in (Inr \<lparr>image = img, caption = cap, tokens = toks,
                            runt_size = ti_runt_size ti\<rparr>,
                       self, snd rw))))"

subsection \<open>\<open>__init__\<close>\<close>

definition trainer_set_msg :: "nat \<Rightarrow> int \<Rightarrow> real \<Rightarrow> string" where
  "trainer_set_msg num_images bs estimate =
     '' ** Trainer Set: '' @ py_format_0f estimate
       @ '', num_images: '' @ py_str_int (int num_images)
       @ '', batch_size: '' @ py_str_int bs"

definition init ::
  "('dl, 'item, 'tok, 'cap) collaborators \<Rightarrow> 'tok init_args \<Rightarrow> 'dl world
     \<Rightarrow> (error + ('item, 'tok) EveryDreamBatch) \<times> 'dl world" where
  "init C a w =
     (case a_tokenizer a of
        None \<Rightarrow> (Inl AttributeError, w)
      | Some tok \<Rightarrow>
          (let got = get_shuffled_image_buckets C (loader w) 1;
               self = \<lparr>batch_size = dl_batch_size C (loader w),
                       debug_level = a_debug_level a,
                       conditional_dropout = a_conditional_dropout a,
                       crop_jitter = a_crop_jitter a,
                       unloaded_to_idx = 0,
                       tokenizer = tok,
                       log_folder = a_log_folder a,
                       max_token_length = model_max_length C tok,
                       retain_contrast = a_retain_contrast a,
                       write_schedule = a_write_schedule a,
                       shuffle_tags = a_shuffle_tags a,
                       seed = a_seed a,
                       rated_dataset = a_rated_dataset a,
                       rated_dataset_dropout_target = a_rated_dataset_dropout_target a,
                       image_train_items = fst got\<rparr>;
               w1 = w\<lparr>loader := snd got\<rparr>;
               num_images = length (image_train_items self)
           in case py_truediv (int num_images) (batch_size self) of
                Inl e \<Rightarrow> (Inl e, w1)
              | Inr estimate \<Rightarrow>
                  (let w2 = logging_info
                              (trainer_set_msg num_images (batch_size self) estimate) w1
                   in if write_schedule self
                      then (case write_batch_schedule C self 0 w2 of
                              (Inl e, w3) \<Rightarrow> (Inl e, w3)
                            | (Inr u, w3) \<Rightarrow> (Inr self, w3))
                      else (Inr self, w2))))"

subsection \<open>A client of the object\<close>

text \<open>
  The calls a client can make on a constructed object. \<open>step\<close> makes one call and keeps
  the object and the world as the call leaves them, whether it returns or raises;
  \<open>run\<close> makes a sequence of calls.
\<close>

datatype call = Shuffle int int | GetItem int | Len

fun step ::
  "('dl, 'item, 'tok, 'cap) collaborators \<Rightarrow> call
     \<Rightarrow> ('item, 'tok) EveryDreamBatch \<times> 'dl world
     \<Rightarrow> ('item, 'tok) EveryDreamBatch \<times> 'dl world" where
  "step C (Shuffle epoch_n max_epochs) sw = snd (shuffle C epoch_n max_epochs sw)"
| "step C (GetItem i) sw = snd (getitem C i sw)"
| "step C Len sw = sw"

primrec run ::
  "('dl, 'item, 'tok, 'cap) collaborators \<Rightarrow> call list
     \<Rightarrow> ('item, 'tok) EveryDreamBatch \<times> 'dl world
     \<Rightarrow> ('item, 'tok) EveryDreamBatch \<times> 'dl world" where
  "run C [] sw = sw"
| "run C (c # cs) sw = run C cs (step C c sw)"

definition shuffle_calls :: "call list \<Rightarrow> nat" where
  "shuffle_calls cs = length (filter (\<lambda>c. case c of Shuffle e m \<Rightarrow> True | _ \<Rightarrow> False) cs)"

subsection \<open>Reading the schedule file back\<close>




text \<open>
  Whether iteration \<open>i\<close> of the loop of \<open>__write_batch_schedule\<close>, started in the world
  \<open>w\<close>, gets its line into the file: the division must not raise, and the \<open>write\<close> call
  the iteration then makes, the \<open>i\<close>-th from \<open>w\<close> on, must succeed.
\<close>

definition entry_written :: "('item, 'tok) EveryDreamBatch \<Rightarrow> 'dl world \<Rightarrow> nat \<Rightarrow> bool" where
  "entry_written self w i \<longleftrightarrow> batch_size self \<noteq> 0 \<and> write_ok w (writes_tried w + i)"

subsection \<open>A small instance\<close>

text \<open>
  Three items named by numbers, of which item 2 cannot be hydrated; a loader that keeps
  two of them when the fraction is below 1 and counts its calls; captions with a stable
  and a shuffled text; a tokenizer of length 3 whose first id is the length of the text;
  what \<open>hydrate\<close> was asked is visible in the runt size it returns. In the world the
  first draw is 0, and the second \<open>write\<close> fails.
\<close>

definition ex_C :: "(nat, nat, unit, string \<times> string) collaborators" where
  "ex_C =
     \<lparr>dl_batch_size = (\<lambda>d. 2),
      get_shuffled_image_buckets = (\<lambda>d f. (if f < 1 then [1, 0] else [0, 1, 2], Suc d)),
      item_target_wh = (\<lambda>it. ''[512, 512]''),
      item_runt_size = (\<lambda>it. 0),
      item_pathname = (\<lambda>it. ''img'' @ dec it @ ''.png''),
      hydrate = (\<lambda>it crop save cj.
         if it = 2 then Inl (HydrateError ''unreadable'')
         else Inr \<lparr>h_image = [0, 51, 255], h_caption = (''a, cat'', ''cat, a''),
                   h_runt_size = (if crop then 100 else 0) + (if save then 50 else 0) + cj\<rparr>),
      get_caption = fst,
      get_shuffled_caption = (\<lambda>cap sd. if even sd then fst cap else snd cap),
      model_max_length = (\<lambda>t. 3),
      tokenizer_call = (\<lambda>t text trunc pad n. [int (length text), 0, 0])\<rparr>"

definition ex_world :: "nat world" where
  "ex_world =
     \<lparr>loader = 0, draws = (\<lambda>n. if n = 0 then 0 else 1 / 2), draws_used = 0,
      open_ok = (\<lambda>p. True), write_ok = (\<lambda>k. k \<noteq> 1), writes_tried = 0,
      files = (\<lambda>p. None), log = []\<rparr>"

definition ex_args :: "unit init_args" where
  "ex_args = default_args\<lparr>a_tokenizer := Some (), a_log_folder := Some ''logs'',
                a_write_schedule := True, a_rated_dataset := True\<rparr>"

definition ex_self :: "(nat, unit) EveryDreamBatch" where
  "ex_self =
     \<lparr>batch_size = 2, debug_level = 0, conditional_dropout = 2 / 100,
      crop_jitter = 20, unloaded_to_idx = 0, tokenizer = (),
      log_folder = Some ''logs'', max_token_length = 3,
      retain_contrast = False, write_schedule = True,
      shuffle_tags = False, seed = 555, rated_dataset = True,
      rated_dataset_dropout_target = 1 / 2,
      image_train_items = [0, 1, 2]\<rparr>"

text \<open>The object and the world that \<open>__init__\<close> leaves in this instance.\<close>

definition ex_world1 :: "nat world" where
  "ex_world1 =
     ex_world\<lparr>loader := 1, writes_tried := 3,
       files := (\<lambda>p. None)(''logs/ep0_batch_schedule.txt'' \<mapsto>
         [''step:00000, wh:[512, 512], r:0, path:img0.png'' @ [CHR 0x0A],
          ''step:00001, wh:[512, 512], r:0, path:img2.png'' @ [CHR 0x0A]]),
       log := [(INFO, '' ** Trainer Set: 2, num_images: 3, batch_size: 2''),
               (ERROR, '' * Error writing to batch schedule for file path: img1.png'')]\<rparr>"




section \<open>Properties\<close>

subsection \<open>Evaluation\<close>

lemma zeros_numeral:
  "replicate (numeral n) (CHR ''0'') = replicate (pred_numeral n) (CHR ''0'') @ ''0''"
  by (simp add: numeral_eq_Suc replicate_append_same)

lemmas py_defs =
  py_truediv_def py_int_def py_str_int_def py_format_05_def zfill_def zeros_numeral
  py_format_0f_def round_half_even_def py_str_opt_def py_index_def dec.simps

lemmas io_defs =
  logging_info_def logging_error_def file_open_w_def file_write_def random_random_def

lemmas schedule_defs =
  schedule_text_def schedule_line_def schedule_error_msg_def write_entry_def
  schedule_path_def write_batch_schedule_def upt_conv_Cons

lemmas ex_defs = ex_C_def ex_world_def ex_world1_def ex_args_def ex_self_def default_args_def

lemma ex_init: "init ex_C ex_args ex_world = (Inr ex_self, ex_world1)"
  by (simp add: init_def ex_defs Let_def trainer_set_msg_def py_defs io_defs schedule_defs)

subsection \<open>Decimal digits\<close>













subsection \<open>The loop of \<open>__write_batch_schedule\<close>\<close>






subsection \<open>What the methods leave alone\<close>

lemma loader_write_entries [simp]:
  "loader (write_entries C self path is w) = loader w"
  by (induction "is" arbitrary: w)
     (auto simp: write_entry_def file_write_def logging_error_def Let_def
           split: sum.splits prod.splits if_splits)

lemma shuffle_seed:
  "seed (fst (snd (shuffle C epoch_n max_epochs sw))) = seed (fst sw) + 1"
  by (simp add: shuffle_def Let_def split: sum.splits prod.splits)

lemma getitem_self: "fst (snd (getitem C i sw)) = fst sw"
  by (simp add: getitem_def Let_def split: sum.splits)

lemma step_seed:
  "seed (fst (step C c sw)) = seed (fst sw) + (case c of Shuffle e m \<Rightarrow> 1 | _ \<Rightarrow> 0)"
  by (cases c) (simp_all add: shuffle_seed getitem_self)

lemma run_seed: "seed (fst (run C cs sw)) = seed (fst sw) + int (shuffle_calls cs)"
proof (induction cs arbitrary: sw)
  case Nil
  then show ?case by (simp add: shuffle_calls_def)
next
  case (Cons c cs)
  have "seed (fst (run C (c # cs) sw)) = seed (fst (step C c sw)) + int (shuffle_calls cs)"
    using Cons.IH [of "step C c sw"] by simp
  then show ?case
    by (cases c) (simp_all add: shuffle_seed getitem_self shuffle_calls_def)
qed

lemma init_seed: "init C a w = (Inr self, w') \<Longrightarrow> seed self = a_seed a"
  by (auto simp: init_def Let_def split: option.splits sum.splits prod.splits if_splits)

subsection \<open>What \<open>__init__\<close> and \<open>shuffle\<close> return\<close>

lemma dropout_fraction_seed [simp]:
  "dropout_fraction (self\<lparr>seed := n\<rparr>) epoch_n max_epochs = dropout_fraction self epoch_n max_epochs"
  by (simp add: dropout_fraction_def)

lemma loader_write_batch_schedule [simp]:
  "loader (snd (write_batch_schedule C self epoch_n w)) = loader w"
  by (simp add: write_batch_schedule_def file_open_w_def)








subsection \<open>What \<open>__getitem__\<close> returns\<close>

lemma getitem_index_error:
  "py_index (image_train_items self) i = Inl e \<Longrightarrow> getitem C i (self, w) = (Inl e, self, w)"
  by (simp add: getitem_def)

lemma getitem_hydrate_error:
  "py_index (image_train_items self) i = Inr it \<Longrightarrow>
   hydrate C it False (2 < debug_level self) (crop_jitter self) = Inl e \<Longrightarrow>
   getitem C i (self, w) = (Inl e, self, w)"
  by (simp add: getitem_def get_image_for_trainer_def)

lemma getitem_returns:
  "py_index (image_train_items self) i = Inr it \<Longrightarrow>
   hydrate C it False (2 < debug_level self) (crop_jitter self) = Inr h \<Longrightarrow>
   getitem C i (self, w) =
     (Inr \<lparr>image = Normalize (fst (normalize_params self)) (snd (normalize_params self))
                     (ToTensor (h_image h)),
           caption = (if shuffle_tags self then get_shuffled_caption C (h_caption h) (seed self)
                      else get_caption C (h_caption h)),
           tokens = (if conditional_dropout self < draws w (draws_used w)
                     then tokenizer_call C (tokenizer self)
                            (if shuffle_tags self
                             then get_shuffled_caption C (h_caption h) (seed self)
                             else get_caption C (h_caption h))
                            True ''max_length'' (model_max_length C (tokenizer self))
                     else tokenizer_call C (tokenizer self) '' '' True ''max_length''
                            (model_max_length C (tokenizer self))),
           runt_size = h_runt_size h\<rparr>,
      self, w\<lparr>draws_used := Suc (draws_used w)\<rparr>)"
  by (simp add: getitem_def get_image_for_trainer_def random_random_def Let_def)

lemma getitem_world:
  "snd (snd (getitem C i (self, w))) = w
   \<or> snd (snd (getitem C i (self, w))) = w\<lparr>draws_used := Suc (draws_used w)\<rparr>"
  by (simp add: getitem_def random_random_def Let_def split: sum.splits)

lemma run_append: "run C (cs @ cs') sw = run C cs' (run C cs sw)"
  by (induction cs arbitrary: sw) simp_all

lemma getitem_raises_world:
  "fst (getitem C i (self, w)) = Inl e \<Longrightarrow> snd (snd (getitem C i (self, w))) = w"
  by (auto simp: getitem_def random_random_def Let_def split: sum.splits)

lemma getitem_returns_world:
  "fst (getitem C i (self, w)) = Inr ex \<Longrightarrow>
   snd (snd (getitem C i (self, w))) = w\<lparr>draws_used := Suc (draws_used w)\<rparr>"
  by (auto simp: getitem_def random_random_def Let_def split: sum.splits)

lemma run_getitems:
  "(\<forall>c \<in> set cs. \<exists>j. c = GetItem j) \<Longrightarrow>
   \<exists>n. run C cs (self, w) = (self, w\<lparr>draws_used := draws_used w + n\<rparr>)"
proof (induction cs arbitrary: w)
  case Nil
  have "run C [] (self, w) = (self, w\<lparr>draws_used := draws_used w + 0\<rparr>)" by simp
  then show ?case by blast
next
  case (Cons c cs)
  then obtain j where c: "c = GetItem j" by auto
  have s: "step C c (self, w) = (self, snd (snd (getitem C j (self, w))))"
    using getitem_self [of C j "(self, w)"] by (simp add: c prod_eq_iff)
  from Cons have rest: "\<forall>c \<in> set cs. \<exists>j. c = GetItem j" by simp
  show ?case
    using getitem_world [of C j self w]
  proof
    assume u: "snd (snd (getitem C j (self, w))) = w"
    from Cons.IH [OF rest, of w] show ?thesis by (simp add: s u)
  next
    assume u: "snd (snd (getitem C j (self, w))) = w\<lparr>draws_used := Suc (draws_used w)\<rparr>"
    from Cons.IH [OF rest, of "w\<lparr>draws_used := Suc (draws_used w)\<rparr>"]
    obtain n where
      "run C cs (self, w\<lparr>draws_used := Suc (draws_used w)\<rparr>)
         = (self, w\<lparr>draws_used := draws_used w + Suc n\<rparr>)"
      by auto
    then show ?thesis by (simp only: run.simps s u) blast
  qed
qed

subsection \<open>The two transforms\<close>

lemma ToTensor_range: "x \<in> set (ToTensor img) \<Longrightarrow> 0 \<le> x \<and> x \<le> 1"
proof -
  assume "x \<in> set (ToTensor img)"
  then obtain p :: "8 word" where x: "x = real (unat p) / 255"
    by (auto simp: ToTensor_def)
  have "unat p < 2 ^ 8" using unsigned_less [of p] by simp
  then have "unat p \<le> 255" by simp
  then have "real (unat p) \<le> real 255" by (simp only: of_nat_le_iff)
  then have "real (unat p) / 255 \<le> 1" by (simp del: of_nat_unat)
  moreover have "0 \<le> real (unat p) / 255" by (simp del: of_nat_unat)
  ultimately show ?thesis by (simp only: x)
qed

lemma Normalize_identity: "Normalize 0 1 t = t"
  by (simp add: Normalize_def)

lemma Normalize_half_range:
  assumes "\<forall>x \<in> set t. 0 \<le> x \<and> x \<le> 1" and "y \<in> set (Normalize (1 / 2) (1 / 2) t)"
  shows "- 1 \<le> y \<and> y \<le> 1"
proof -
  from assms(2) obtain x where "x \<in> set t" and y: "y = (x - 1 / 2) / (1 / 2)"
    by (auto simp: Normalize_def)
  with assms(1) have "0 \<le> x \<and> x \<le> 1" by blast
  with y show ?thesis by simp
qed

subsection \<open>The batch size\<close>




subsection \<open>\<open>shuffle\<close> with the schedule file\<close>



lemma entry_written_frame [simp]:
  "entry_written (self\<lparr>seed := n, image_train_items := its\<rparr>) (w\<lparr>loader := d, files := f\<rparr>)
     = entry_written self w"
  by (simp add: entry_written_def fun_eq_iff)

lemma schedule_error_msg_items [simp]:
  "schedule_error_msg C (self\<lparr>seed := n, image_train_items := its\<rparr>) i
     = '' * Error writing to batch schedule for file path: '' @ item_pathname C (its ! i)"
  by (simp add: schedule_error_msg_def)



section \<open>The claims\<close>



text \<open>
  C2. The specification says that with \<open>conditional_dropout = 0.0\<close> no sample is blanked, for
  every value the draw can take. \<open>random.random()\<close> returns values from 0 (included) to 1
  (excluded), and the caption is kept only when the draw is strictly greater than
  \<open>conditional_dropout\<close>: in the small instance, with \<open>conditional_dropout = 0\<close> and a
  draw of 0, the tokens of the sample are those of the blank string and not those of its
  caption.
\<close>

theorem conditional_dropout_blanks_at_zero_counterexample:
  "conditional_dropout (ex_self\<lparr>conditional_dropout := 0\<rparr>) = 0
   \<and> 0 \<le> draws ex_world1 (draws_used ex_world1)
   \<and> draws ex_world1 (draws_used ex_world1) < 1
   \<and> fst (getitem ex_C 0 (ex_self\<lparr>conditional_dropout := 0\<rparr>, ex_world1))
       = Inr \<lparr>image = [- 1, - (3 / 5), 1], caption = ''a, cat'', tokens = [1, 0, 0],
              runt_size = 20\<rparr>
   \<and> tokenizer_call ex_C () '' '' True ''max_length'' 3 = [1, 0, 0]
   \<and> tokenizer_call ex_C () ''a, cat'' True ''max_length'' 3 = [6, 0, 0]"
  by (simp add: ex_defs getitem_def get_image_for_trainer_def random_random_def Let_def
        py_index_def normalize_params_def Normalize_def ToTensor_def)

text \<open>
  C2, as amended. When \<open>__getitem__\<close> returns (index in range, item hydrated), the tokens are
  those of the caption exactly when the draw is strictly greater than
  \<open>conditional_dropout\<close>, and those of the string of one blank otherwise. So for every
  draw from 0 to below 1: with \<open>conditional_dropout = 1\<close> the tokens are those of the
  blank string; with \<open>conditional_dropout = 0\<close> they are those of the caption for every
  draw other than 0, and those of the blank string for the draw 0.
\<close>

theorem conditional_dropout_branch:
  assumes "py_index (image_train_items self) i = Inr it"
    and "hydrate C it False (2 < debug_level self) (crop_jitter self) = Inr h"
    and "0 \<le> draws w (draws_used w)" and "draws w (draws_used w) < 1"
  shows "\<exists>ex w'.
           getitem C i (self, w) = (Inr ex, self, w')
           \<and> (conditional_dropout self < draws w (draws_used w) \<longrightarrow>
                tokens ex = tokenizer_call C (tokenizer self) (caption ex) True ''max_length''
                              (model_max_length C (tokenizer self)))
           \<and> (\<not> conditional_dropout self < draws w (draws_used w) \<longrightarrow>
                tokens ex = tokenizer_call C (tokenizer self) '' '' True ''max_length''
                              (model_max_length C (tokenizer self)))
           \<and> (conditional_dropout self = 1 \<longrightarrow>
                tokens ex = tokenizer_call C (tokenizer self) '' '' True ''max_length''
                              (model_max_length C (tokenizer self)))
           \<and> (conditional_dropout self = 0 \<and> draws w (draws_used w) \<noteq> 0 \<longrightarrow>
                tokens ex = tokenizer_call C (tokenizer self) (caption ex) True ''max_length''
                              (model_max_length C (tokenizer self)))
           \<and> (conditional_dropout self = 0 \<and> draws w (draws_used w) = 0 \<longrightarrow>
                tokens ex = tokenizer_call C (tokenizer self) '' '' True ''max_length''
                              (model_max_length C (tokenizer self)))"
  using assms(3,4) by (simp add: getitem_returns [OF assms(1,2)])

theorem conditional_dropout_branch_witness:
  "py_index (image_train_items ex_self) 0 = Inr 0
   \<and> hydrate ex_C 0 False (2 < debug_level ex_self) (crop_jitter ex_self)
       = Inr \<lparr>h_image = [0, 51, 255], h_caption = (''a, cat'', ''cat, a''), h_runt_size = 20\<rparr>
   \<and> draws ex_world1 (draws_used ex_world1) = 0
   \<and> draws (ex_world1\<lparr>draws_used := 1\<rparr>) (draws_used (ex_world1\<lparr>draws_used := 1\<rparr>)) = 1 / 2
   \<and> map_sum id tokens
        (fst (getitem ex_C 0 (ex_self\<lparr>conditional_dropout := 1\<rparr>, ex_world1\<lparr>draws_used := 1\<rparr>)))
       = Inr [1, 0, 0]
   \<and> map_sum id tokens
        (fst (getitem ex_C 0 (ex_self\<lparr>conditional_dropout := 0\<rparr>, ex_world1\<lparr>draws_used := 1\<rparr>)))
       = Inr [6, 0, 0]
   \<and> map_sum id tokens
        (fst (getitem ex_C 0 (ex_self\<lparr>conditional_dropout := 0\<rparr>, ex_world1)))
       = Inr [1, 0, 0]"
proof -
  let ?h = "\<lparr>h_image = [0, 51, 255], h_caption = (''a, cat'', ''cat, a''), h_runt_size = 20\<rparr>"
  let ?w = "ex_world1\<lparr>draws_used := 1\<rparr>"
  let ?blank = "tokenizer_call ex_C () '' '' True ''max_length'' (model_max_length ex_C ())"
  have i: "py_index (image_train_items (ex_self\<lparr>conditional_dropout := d\<rparr>)) 0 = Inr 0" for d
    by (simp add: ex_defs py_index_def)
  have h: "hydrate ex_C 0 False (2 < debug_level (ex_self\<lparr>conditional_dropout := d\<rparr>))
             (crop_jitter (ex_self\<lparr>conditional_dropout := d\<rparr>)) = Inr ?h" for d
    by (simp add: ex_defs)
  have d0: "0 \<le> draws ex_world1 (draws_used ex_world1)"
    and d1: "draws ex_world1 (draws_used ex_world1) < 1"
    and e0: "0 \<le> draws ?w (draws_used ?w)" and e1: "draws ?w (draws_used ?w) < 1"
    by (simp_all add: ex_defs)
  have cap: "caption ex = ''a, cat''"
    if "getitem ex_C 0 (ex_self\<lparr>conditional_dropout := d\<rparr>, w) = (Inr ex, s', w')"
    for d w ex s' w'
    using that by (simp add: getitem_returns [OF i h]) (auto simp: ex_defs)
  obtain ex1 w1 where
    g1: "getitem ex_C 0 (ex_self\<lparr>conditional_dropout := 1\<rparr>, ?w)
           = (Inr ex1, ex_self\<lparr>conditional_dropout := 1\<rparr>, w1)"
    and "conditional_dropout (ex_self\<lparr>conditional_dropout := 1\<rparr>) = 1 \<longrightarrow> tokens ex1 = ?blank"
    using conditional_dropout_branch [OF i h e0 e1, of 1] by (auto simp: ex_defs)
  then have t1: "tokens ex1 = [1, 0, 0]" by (simp add: ex_defs)
  obtain ex2 w2 where
    g2: "getitem ex_C 0 (ex_self\<lparr>conditional_dropout := 0\<rparr>, ?w)
           = (Inr ex2, ex_self\<lparr>conditional_dropout := 0\<rparr>, w2)"
    and "conditional_dropout (ex_self\<lparr>conditional_dropout := 0\<rparr>) = 0
           \<and> draws ?w (draws_used ?w) \<noteq> 0 \<longrightarrow>
         tokens ex2 = tokenizer_call ex_C () (caption ex2) True ''max_length''
                        (model_max_length ex_C ())"
    using conditional_dropout_branch [OF i h e0 e1, of 0] by (auto simp: ex_defs)
  then have t2: "tokens ex2 = [6, 0, 0]" using cap [OF g2] by (simp add: ex_defs)
  obtain ex3 w3 where
    g3: "getitem ex_C 0 (ex_self\<lparr>conditional_dropout := 0\<rparr>, ex_world1)
           = (Inr ex3, ex_self\<lparr>conditional_dropout := 0\<rparr>, w3)"
    and "conditional_dropout (ex_self\<lparr>conditional_dropout := 0\<rparr>) = 0
           \<and> draws ex_world1 (draws_used ex_world1) = 0 \<longrightarrow> tokens ex3 = ?blank"
    using conditional_dropout_branch [OF i h d0 d1, of 0] by (auto simp: ex_defs)
  then have t3: "tokens ex3 = [1, 0, 0]" by (simp add: ex_defs)
  have c1: "map_sum id tokens
              (fst (getitem ex_C 0 (ex_self\<lparr>conditional_dropout := 1\<rparr>, ?w))) = Inr [1, 0, 0]"
    using g1 t1 by simp
  have c2: "map_sum id tokens
              (fst (getitem ex_C 0 (ex_self\<lparr>conditional_dropout := 0\<rparr>, ?w))) = Inr [6, 0, 0]"
    using g2 t2 by simp
  have c3: "map_sum id tokens
              (fst (getitem ex_C 0 (ex_self\<lparr>conditional_dropout := 0\<rparr>, ex_world1)))
            = Inr [1, 0, 0]"
    using g3 t3 by simp
  have "py_index (image_train_items ex_self) 0 = Inr 0"
    and "hydrate ex_C 0 False (2 < debug_level ex_self) (crop_jitter ex_self) = Inr ?h"
    and "draws ex_world1 (draws_used ex_world1) = 0"
    and "draws ?w (draws_used ?w) = 1 / 2"
    by (simp_all add: ex_defs py_index_def)
  with c1 c2 c3 show ?thesis by blast
qed

text \<open>
  C3. Every call of \<open>shuffle\<close> adds exactly 1 to \<open>seed\<close>, also a call that raises
  afterwards; \<open>__getitem__\<close> and \<open>__len__\<close> leave it alone. So after any sequence of calls
  the seed is the one before plus the number of \<open>shuffle\<close> calls in the sequence, it never
  goes down as the sequence is extended, and on an object that \<open>__init__\<close> returned for
  the initial seed \<open>s\<close> it is \<open>s + k\<close> after \<open>k\<close> calls of \<open>shuffle\<close>.
\<close>

theorem seed_counts_shuffles:
  "seed (fst (snd (shuffle C epoch_n max_epochs (self, w)))) = seed self + 1
   \<and> seed (fst (snd (getitem C i (self, w)))) = seed self
   \<and> seed (fst (run C cs (self, w))) = seed self + int (shuffle_calls cs)
   \<and> seed (fst (run C cs (self, w))) \<le> seed (fst (run C (cs @ cs') (self, w)))
   \<and> (init C a w0 = (Inr self0, w1) \<longrightarrow>
        seed self0 = a_seed a
        \<and> seed (fst (run C cs (self0, w1))) = a_seed a + int (shuffle_calls cs))"
proof (intro conjI impI)
  show "seed (fst (snd (shuffle C epoch_n max_epochs (self, w)))) = seed self + 1"
    using shuffle_seed [of C epoch_n max_epochs "(self, w)"] by simp
  show "seed (fst (snd (getitem C i (self, w)))) = seed self"
    by (simp add: getitem_self)
  show "seed (fst (run C cs (self, w))) = seed self + int (shuffle_calls cs)"
    using run_seed [of C cs "(self, w)"] by simp
  show "seed (fst (run C cs (self, w))) \<le> seed (fst (run C (cs @ cs') (self, w)))"
    using run_seed [of C cs' "run C cs (self, w)"] by (simp add: run_append)
next
  assume i: "init C a w0 = (Inr self0, w1)"
  then show s0: "seed self0 = a_seed a" by (rule init_seed)
  show "seed (fst (run C cs (self0, w1))) = a_seed a + int (shuffle_calls cs)"
    using run_seed [of C cs "(self0, w1)"] s0 by simp
qed

theorem seed_counts_shuffles_witness:
  "init ex_C ex_args ex_world = (Inr ex_self, ex_world1)
   \<and> a_seed ex_args = 555
   \<and> seed (fst (run ex_C [Shuffle 0 10, GetItem 0, Shuffle 1 10, Len, Shuffle 2 0]
                  (ex_self, ex_world1))) = 558"
  using seed_counts_shuffles
    [where C = ex_C and a = ex_args and ?w0.0 = ex_world and ?self0.0 = ex_self
       and ?w1.0 = ex_world1
       and cs = "[Shuffle 0 10, GetItem 0, Shuffle 1 10, Len, Shuffle 2 0]"]
    ex_init
  by (simp add: shuffle_calls_def ex_args_def default_args_def)

text \<open>
  C4. When \<open>__getitem__\<close> returns, the image of the sample is the hydrated image after
  \<open>ToTensor\<close> and one \<open>Normalize([mean], [std_dev])\<close>. With \<open>retain_contrast\<close> the pair
  is \<open>(0, 1)\<close> and every value is the pixel divided by 255, between 0 and 1; without it
  the pair is \<open>(0.5, 0.5)\<close>, every value is \<open>(p / 255 - 0.5) / 0.5\<close> and lies between -1
  and 1, for every 8-bit pixel \<open>p\<close>.
\<close>

theorem image_normalization:
  assumes "py_index (image_train_items self) i = Inr it"
    and "hydrate C it False (2 < debug_level self) (crop_jitter self) = Inr h"
  shows "\<exists>ex w'.
           getitem C i (self, w) = (Inr ex, self, w')
           \<and> image ex = Normalize (fst (normalize_params self)) (snd (normalize_params self))
                           (ToTensor (h_image h))
           \<and> (retain_contrast self \<longrightarrow>
                normalize_params self = (0, 1)
                \<and> image ex = map (\<lambda>p. real (unat p) / 255) (h_image h)
                \<and> (\<forall>x \<in> set (image ex). 0 \<le> x \<and> x \<le> 1))
           \<and> (\<not> retain_contrast self \<longrightarrow>
                normalize_params self = (1 / 2, 1 / 2)
                \<and> image ex = map (\<lambda>p. (real (unat p) / 255 - 1 / 2) / (1 / 2)) (h_image h)
                \<and> (\<forall>x \<in> set (image ex). - 1 \<le> x \<and> x \<le> 1))"
proof -
  let ?img = "Normalize (fst (normalize_params self)) (snd (normalize_params self))
                (ToTensor (h_image h))"
  have "\<exists>ex w'. getitem C i (self, w) = (Inr ex, self, w') \<and> image ex = ?img"
    by (simp add: getitem_returns [OF assms])
  then obtain ex w' where g: "getitem C i (self, w) = (Inr ex, self, w')"
    and im: "image ex = ?img"
    by blast
  have keep: "normalize_params self = (0, 1)
          \<and> image ex = map (\<lambda>p. real (unat p) / 255) (h_image h)
          \<and> (\<forall>x \<in> set (image ex). 0 \<le> x \<and> x \<le> 1)" if r: "retain_contrast self"
  proof (intro conjI ballI)
    from r show "normalize_params self = (0, 1)" by (simp add: normalize_params_def)
    from r have t: "image ex = ToTensor (h_image h)"
      by (simp add: im normalize_params_def Normalize_identity)
    then show "image ex = map (\<lambda>p. real (unat p) / 255) (h_image h)"
      by (simp add: ToTensor_def)
    fix x assume "x \<in> set (image ex)"
    then have "0 \<le> x \<and> x \<le> 1" using ToTensor_range [of x "h_image h"] by (simp add: t)
    then show "0 \<le> x" and "x \<le> 1" by simp_all
  qed
  have scale: "normalize_params self = (1 / 2, 1 / 2)
          \<and> image ex = map (\<lambda>p. (real (unat p) / 255 - 1 / 2) / (1 / 2)) (h_image h)
          \<and> (\<forall>x \<in> set (image ex). - 1 \<le> x \<and> x \<le> 1)" if nr: "\<not> retain_contrast self"
  proof (intro conjI ballI)
    from nr show "normalize_params self = (1 / 2, 1 / 2)" by (simp add: normalize_params_def)
    from nr have t: "image ex = Normalize (1 / 2) (1 / 2) (ToTensor (h_image h))"
      by (simp add: im normalize_params_def)
    then show "image ex = map (\<lambda>p. (real (unat p) / 255 - 1 / 2) / (1 / 2)) (h_image h)"
      by (simp add: Normalize_def ToTensor_def)
    fix x assume "x \<in> set (image ex)"
    then have "x \<in> set (Normalize (1 / 2) (1 / 2) (ToTensor (h_image h)))"
      by (simp add: t)
    then have "- 1 \<le> x \<and> x \<le> 1"
      using Normalize_half_range [of "ToTensor (h_image h)" x] ToTensor_range by blast
    then show "- 1 \<le> x" and "x \<le> 1" by simp_all
  qed
  from g im keep scale show ?thesis by blast
qed

theorem image_normalization_witness:
  "py_index (image_train_items ex_self) 0 = Inr 0
   \<and> hydrate ex_C 0 False (2 < debug_level ex_self) (crop_jitter ex_self)
       = Inr \<lparr>h_image = [0, 51, 255], h_caption = (''a, cat'', ''cat, a''), h_runt_size = 20\<rparr>
   \<and> \<not> retain_contrast ex_self
   \<and> (\<exists>ex w'. getitem ex_C 0 (ex_self, ex_world1) = (Inr ex, ex_self, w')
         \<and> image ex = [- 1, - (3 / 5), 1])
   \<and> retain_contrast (ex_self\<lparr>retain_contrast := True\<rparr>)
   \<and> (\<exists>ex w'. getitem ex_C 0 (ex_self\<lparr>retain_contrast := True\<rparr>, ex_world1)
                  = (Inr ex, ex_self\<lparr>retain_contrast := True\<rparr>, w')
         \<and> image ex = [0, 1 / 5, 1])"
proof -
  let ?h = "\<lparr>h_image = [0, 51, 255], h_caption = (''a, cat'', ''cat, a''), h_runt_size = 20\<rparr>"
  let ?s = "ex_self\<lparr>retain_contrast := True\<rparr>"
  have i: "py_index (image_train_items ex_self) 0 = Inr 0"
    by (simp add: ex_defs py_index_def)
  have h: "hydrate ex_C 0 False (2 < debug_level ex_self) (crop_jitter ex_self) = Inr ?h"
    by (simp add: ex_defs)
  have i': "py_index (image_train_items ?s) 0 = Inr 0"
    by (simp add: ex_defs py_index_def)
  have h': "hydrate ex_C 0 False (2 < debug_level ?s) (crop_jitter ?s) = Inr ?h"
    by (simp add: ex_defs)
  have n: "\<not> retain_contrast ex_self" and r: "retain_contrast ?s"
    by (simp_all add: ex_defs)
  show ?thesis
    using image_normalization [OF i h, of ex_world1] image_normalization [OF i' h', of ex_world1]
      i h n r
    by auto
qed



text \<open>
  C6. When \<open>__getitem__\<close> returns, the caption of the sample is the shuffled view of the
  hydrated caption object, asked for with the current value of \<open>self.seed\<close>, if
  \<open>shuffle_tags\<close> is set, and the stable view \<open>get_caption()\<close> otherwise. It returns
  whenever the index is in range and the item hydrates.
\<close>

theorem caption_view:
  assumes "py_index (image_train_items self) i = Inr it"
    and "hydrate C it False (2 < debug_level self) (crop_jitter self) = Inr h"
  shows "\<exists>ex w'.
           getitem C i (self, w) = (Inr ex, self, w')
           \<and> (shuffle_tags self \<longrightarrow>
                caption ex = get_shuffled_caption C (h_caption h) (seed self))
           \<and> (\<not> shuffle_tags self \<longrightarrow> caption ex = get_caption C (h_caption h))"
  by (simp add: getitem_returns [OF assms])

theorem caption_view_witness:
  "py_index (image_train_items ex_self) 0 = Inr 0
   \<and> hydrate ex_C 0 False (2 < debug_level ex_self) (crop_jitter ex_self)
       = Inr \<lparr>h_image = [0, 51, 255], h_caption = (''a, cat'', ''cat, a''), h_runt_size = 20\<rparr>
   \<and> (\<exists>ex w'. getitem ex_C 0 (ex_self, ex_world1) = (Inr ex, ex_self, w')
         \<and> caption ex = ''a, cat'')
   \<and> (\<exists>ex w'. getitem ex_C 0 (ex_self\<lparr>shuffle_tags := True\<rparr>, ex_world1)
                  = (Inr ex, ex_self\<lparr>shuffle_tags := True\<rparr>, w')
         \<and> seed (ex_self\<lparr>shuffle_tags := True\<rparr>) = 555
         \<and> caption ex = ''cat, a'')"
proof -
  let ?h = "\<lparr>h_image = [0, 51, 255], h_caption = (''a, cat'', ''cat, a''), h_runt_size = 20\<rparr>"
  have i: "py_index (image_train_items ex_self) 0 = Inr 0"
    by (simp add: ex_defs py_index_def)
  have h: "hydrate ex_C 0 False (2 < debug_level ex_self) (crop_jitter ex_self) = Inr ?h"
    by (simp add: ex_defs)
  have i': "py_index (image_train_items (ex_self\<lparr>shuffle_tags := True\<rparr>)) 0 = Inr 0"
    by (simp add: ex_defs py_index_def)
  have h': "hydrate ex_C 0 False (2 < debug_level (ex_self\<lparr>shuffle_tags := True\<rparr>))
              (crop_jitter (ex_self\<lparr>shuffle_tags := True\<rparr>)) = Inr ?h"
    by (simp add: ex_defs)
  show ?thesis
    using caption_view [OF i h, of ex_world1] caption_view [OF i' h', of ex_world1] i h
    by (simp add: ex_defs)
qed

text \<open>
  C7. \<open>__getitem__\<close> asks for the item at the index to be hydrated with \<open>crop=False\<close>,
  \<open>save\<close> true exactly when \<open>debug_level > 2\<close>, and \<open>crop_jitter=self.crop_jitter\<close>:
  what \<open>__get_image_for_trainer\<close> returns is made of what \<open>hydrate\<close> returns for these
  arguments. An exception of \<open>hydrate\<close> leaves \<open>__getitem__\<close> as it is, and when the item
  hydrates the sample carries the \<open>runt_size\<close> of the hydrated item unchanged. With an
  index out of range no item is hydrated.
\<close>

theorem hydrate_request:
  "(\<forall>it. py_index (image_train_items self) i = Inr it \<longrightarrow>
      get_image_for_trainer C self it (debug_level self) =
        (case hydrate C it False (2 < debug_level self) (crop_jitter self) of
           Inl e \<Rightarrow> Inl e
         | Inr h \<Rightarrow> Inr \<lparr>ti_image = h_image h, ti_caption = h_caption h,
                          ti_runt_size = h_runt_size h\<rparr>)
      \<and> (\<forall>e. hydrate C it False (2 < debug_level self) (crop_jitter self) = Inl e \<longrightarrow>
             getitem C i (self, w) = (Inl e, self, w))
      \<and> (\<forall>h. hydrate C it False (2 < debug_level self) (crop_jitter self) = Inr h \<longrightarrow>
             (\<exists>ex w'. getitem C i (self, w) = (Inr ex, self, w')
                \<and> runt_size ex = h_runt_size h)))
   \<and> (\<forall>e. py_index (image_train_items self) i = Inl e \<longrightarrow>
          getitem C i (self, w) = (Inl e, self, w))"
proof (intro conjI allI impI)
  fix it
  assume i: "py_index (image_train_items self) i = Inr it"
  show "get_image_for_trainer C self it (debug_level self) =
        (case hydrate C it False (2 < debug_level self) (crop_jitter self) of
           Inl e \<Rightarrow> Inl e
         | Inr h \<Rightarrow> Inr \<lparr>ti_image = h_image h, ti_caption = h_caption h,
                          ti_runt_size = h_runt_size h\<rparr>)"
    by (simp add: get_image_for_trainer_def)
  {
    fix e
    assume "hydrate C it False (2 < debug_level self) (crop_jitter self) = Inl e"
    with i show "getitem C i (self, w) = (Inl e, self, w)"
      by (rule getitem_hydrate_error)
  }
  {
    fix h
    assume "hydrate C it False (2 < debug_level self) (crop_jitter self) = Inr h"
    with i show "\<exists>ex w'. getitem C i (self, w) = (Inr ex, self, w')
                   \<and> runt_size ex = h_runt_size h"
      by (simp add: getitem_returns)
  }
next
  fix e
  assume "py_index (image_train_items self) i = Inl e"
  then show "getitem C i (self, w) = (Inl e, self, w)"
    by (rule getitem_index_error)
qed

theorem hydrate_request_witness:
  "py_index (image_train_items (ex_self\<lparr>debug_level := 3\<rparr>)) (- 3) = Inr 0
   \<and> hydrate ex_C 0 False True 20
       = Inr \<lparr>h_image = [0, 51, 255], h_caption = (''a, cat'', ''cat, a''), h_runt_size = 70\<rparr>
   \<and> (\<exists>ex w'. getitem ex_C (- 3) (ex_self\<lparr>debug_level := 3\<rparr>, ex_world1)
                  = (Inr ex, ex_self\<lparr>debug_level := 3\<rparr>, w')
         \<and> runt_size ex = 70)
   \<and> py_index (image_train_items ex_self) 2 = Inr 2
   \<and> hydrate ex_C 2 False False 20 = Inl (HydrateError ''unreadable'')
   \<and> getitem ex_C 2 (ex_self, ex_world1) = (Inl (HydrateError ''unreadable''), ex_self, ex_world1)
   \<and> py_index (image_train_items ex_self) 3 = Inl IndexError
   \<and> getitem ex_C 3 (ex_self, ex_world1) = (Inl IndexError, ex_self, ex_world1)"
  using hydrate_request [where C = ex_C and self = "ex_self\<lparr>debug_level := 3\<rparr>"
                           and w = ex_world1 and i = "- 3"]
    hydrate_request [where C = ex_C and self = ex_self and w = ex_world1 and i = 2]
    hydrate_request [where C = ex_C and self = ex_self and w = ex_world1 and i = 3]
  by (simp add: ex_defs py_index_def)




text \<open>
  C9. \<open>__getitem__\<close> assigns no attribute: after every call, returning or raising, the
  object is the one before the call, with the same ordering, seed, batch size and
  configuration, so \<open>__len__\<close> is unchanged. A call that raises leaves the world as it
  was; a call that returns has taken exactly one value from the random generator and
  changed nothing else of the world. After any sequence of \<open>__getitem__\<close> calls the
  object is unchanged and the world differs only in the number of values drawn.
\<close>

theorem getitem_frame:
  "fst (snd (getitem C i (self, w))) = self
   \<and> len (fst (snd (getitem C i (self, w)))) = len self
   \<and> (\<forall>e. fst (getitem C i (self, w)) = Inl e \<longrightarrow> snd (snd (getitem C i (self, w))) = w)
   \<and> (\<forall>ex. fst (getitem C i (self, w)) = Inr ex \<longrightarrow>
          snd (snd (getitem C i (self, w))) = w\<lparr>draws_used := Suc (draws_used w)\<rparr>)
   \<and> ((\<forall>c \<in> set cs. \<exists>j. c = GetItem j) \<longrightarrow>
        (\<exists>n. run C cs (self, w) = (self, w\<lparr>draws_used := draws_used w + n\<rparr>)))"
  using getitem_self [of C i "(self, w)"] getitem_raises_world [of C i self w]
    getitem_returns_world [of C i self w] run_getitems [of cs C self w]
  by simp

theorem getitem_frame_witness:
  "fst (snd (getitem ex_C 0 (ex_self, ex_world1))) = ex_self
   \<and> len (fst (snd (getitem ex_C 0 (ex_self, ex_world1)))) = 3
   \<and> fst (getitem ex_C 2 (ex_self, ex_world1)) = Inl (HydrateError ''unreadable'')
   \<and> snd (snd (getitem ex_C 2 (ex_self, ex_world1))) = ex_world1
   \<and> fst (getitem ex_C 0 (ex_self, ex_world1))
       = Inr \<lparr>image = [- 1, - (3 / 5), 1], caption = ''a, cat'', tokens = [1, 0, 0],
              runt_size = 20\<rparr>
   \<and> snd (snd (getitem ex_C 0 (ex_self, ex_world1))) = ex_world1\<lparr>draws_used := 1\<rparr>
   \<and> (\<exists>n. run ex_C [GetItem 0, GetItem 2, GetItem 1] (ex_self, ex_world1)
              = (ex_self, ex_world1\<lparr>draws_used := draws_used ex_world1 + n\<rparr>))"
proof -
  have a: "fst (getitem ex_C 2 (ex_self, ex_world1)) = Inl (HydrateError ''unreadable'')"
    by (simp add: ex_defs getitem_def get_image_for_trainer_def py_index_def)
  have b: "fst (getitem ex_C 0 (ex_self, ex_world1))
       = Inr \<lparr>image = [- 1, - (3 / 5), 1], caption = ''a, cat'', tokens = [1, 0, 0],
              runt_size = 20\<rparr>"
    by (simp add: ex_defs getitem_def get_image_for_trainer_def random_random_def Let_def
          py_index_def normalize_params_def Normalize_def ToTensor_def)
  have c: "\<forall>c \<in> set [GetItem 0, GetItem 2, GetItem 1]. \<exists>j. c = GetItem j" by simp
  have l: "len ex_self = 3" by (simp add: len_def ex_defs)
  have d: "draws_used ex_world1 = 0" by (simp add: ex_defs)
  show ?thesis
    using getitem_frame [where C = ex_C and self = ex_self and w = ex_world1 and i = 0
                           and cs = "[GetItem 0, GetItem 2, GetItem 1]"]
      getitem_frame [where C = ex_C and self = ex_self and w = ex_world1 and i = 2
                           and cs = "[]"]
      a b c l d
    by simp
qed



end
